theory Spec2Isabelle
  imports Main "HOL-Library.Word" "HOL-Library.List_Lexorder" "HOL-Library.Option_ord"
begin

section \<open>The helpdesk service: strings, rows and the store\<close>

subsection \<open>JavaScript strings\<close>

text \<open>
  A JavaScript string is a sequence of 16-bit code units; \<open>length\<close> counts code units
  and \<open>trim\<close> removes the code units of WhiteSpace and LineTerminator at both ends.
  A value that may be \<open>null\<close> or \<open>undefined\<close> (a nullable column, an action
  parameter that was not sent) is an \<open>option\<close>.
\<close>

type_synonym jsstring = "16 word list"

definition lit :: "string \<Rightarrow> jsstring" where
  "lit s = map of_char s"

definition isWhiteSpace :: "16 word \<Rightarrow> bool" where
  "isWhiteSpace c \<longleftrightarrow>
     c \<in> {0x9, 0xA, 0xB, 0xC, 0xD, 0x20, 0xA0, 0x1680, 0x2028, 0x2029, 0x202F, 0x205F,
          0x3000, 0xFEFF}
     \<or> (0x2000 \<le> c \<and> c \<le> 0x200A)"

definition trim :: "jsstring \<Rightarrow> jsstring" where
  "trim s = rev (dropWhile isWhiteSpace (rev (dropWhile isWhiteSpace s)))"

text \<open>\<open>!v\<close> is true of \<open>null\<close>, \<open>undefined\<close> and the empty string.\<close>

definition falsy :: "jsstring option \<Rightarrow> bool" where
  "falsy v = (case v of None \<Rightarrow> True | Some s \<Rightarrow> s = [])"

text \<open>\<open>v || d\<close> for a string default \<open>d\<close>.\<close>

definition or_else :: "jsstring option \<Rightarrow> jsstring \<Rightarrow> jsstring" where
  "or_else v d = (case v of None \<Rightarrow> d | Some s \<Rightarrow> if s = [] then d else s)"

text \<open>\<open>[..].includes(v)\<close> on an array of strings: \<open>null\<close> is no member.\<close>

definition includes_js :: "jsstring list \<Rightarrow> jsstring option \<Rightarrow> bool" where
  "includes_js xs v = (case v of None \<Rightarrow> False | Some s \<Rightarrow> s \<in> set xs)"

text \<open>A nullable column inside a template literal: \<open>null\<close> prints as the word.\<close>

definition interp :: "jsstring option \<Rightarrow> jsstring" where
  "interp v = (case v of None \<Rightarrow> lit ''null'' | Some s \<Rightarrow> s)"

text \<open>
  \<open>toLowerCase\<close> on the Latin capital letters; the service applies it to a status that
  it has just found among \<open>'RESOLVED'\<close> and \<open>'CLOSED'\<close>.
\<close>

definition toLowerCase :: "jsstring \<Rightarrow> jsstring" where
  "toLowerCase s = map (\<lambda>c. if 0x41 \<le> c \<and> c \<le> 0x5A then c + 0x20 else c) s"

subsection \<open>Dates\<close>

text \<open>
  \<open>new Date()\<close> reads the system clock. The calendar is the runtime's: a date value
  carries its instant in milliseconds and its local calendar year. A Timestamp column
  holds the instant that the ISO string written by \<open>toISOString\<close> denotes.
\<close>

type_synonym timestamp = int

record Date =
  getTime :: int
  getFullYear :: int

definition toISOString :: "Date \<Rightarrow> timestamp" where
  "toISOString d = getTime d"

subsection \<open>Rows (db/schema.cds)\<close>

record ticket =
  ID :: jsstring
  createdAt :: "timestamp option"
  ticketNumber :: "jsstring option"
  title :: "jsstring option"
  description :: "jsstring option"
  status :: "jsstring option"
  priority :: "jsstring option"
  category_ID :: "jsstring option"
  department_ID :: "jsstring option"
  reporter_ID :: "jsstring option"
  assignedTo_ID :: "jsstring option"
  resolvedAt :: "timestamp option"
  closedAt :: "timestamp option"
  dueDate :: "timestamp option"
  resolutionNote :: "jsstring option"
  isOverdue :: "bool option"

record agent =
  Agents_ID :: jsstring
  Agents_name :: jsstring
  Agents_isActive :: "bool option"

record category =
  Categories_ID :: jsstring
  slaHours :: "int option"

record comment =
  Comments_ticket_ID :: jsstring
  content :: jsstring
  isInternal :: bool
  authorName :: jsstring
  authorEmail :: jsstring

record auditlog =
  ticket_ID :: jsstring
  action :: jsstring
  oldValue :: "jsstring option"
  newValue :: "jsstring option"
  performedBy :: jsstring
  performedAt :: timestamp

text \<open>\<open>req.error(code, message)\<close>: 400 is a ValidationError, 404 a NotFoundError,
  409 a ConflictError.\<close>

datatype error = Error (code: nat) (message: jsstring)

subsection \<open>The store\<close>

text \<open>
  A table is the list of its rows. The clock is the sequence of its successive readings,
  with the number of readings taken so far.
\<close>

record world =
  Tickets :: "ticket list"
  Agents :: "agent list"
  Categories :: "category list"
  Comments :: "comment list"
  AuditLogs :: "auditlog list"
  clock :: "nat \<Rightarrow> Date"
  reads :: nat

definition new_Date :: "world \<Rightarrow> Date \<times> world" where
  "new_Date w = (clock w (reads w), w\<lparr>reads := Suc (reads w)\<rparr>)"

text \<open>\<open>SELECT.one.from(Tickets).where({ ID: ticketID })\<close>\<close>

definition SELECT_one_Tickets :: "jsstring \<Rightarrow> world \<Rightarrow> ticket option" where
  "SELECT_one_Tickets ticketID w = find (\<lambda>t. ID t = ticketID) (Tickets w)"

text \<open>The object given to \<open>.set({...})\<close>, or the payload of an update request: a list of
  column assignments.\<close>

datatype assignment =
    Set_ticketNumber "jsstring option"
  | Set_title "jsstring option"
  | Set_description "jsstring option"
  | Set_status "jsstring option"
  | Set_priority "jsstring option"
  | Set_category_ID "jsstring option"
  | Set_department_ID "jsstring option"
  | Set_reporter_ID "jsstring option"
  | Set_assignedTo_ID "jsstring option"
  | Set_resolvedAt "timestamp option"
  | Set_closedAt "timestamp option"
  | Set_dueDate "timestamp option"
  | Set_resolutionNote "jsstring option"
  | Set_isOverdue "bool option"

fun assign :: "assignment \<Rightarrow> ticket \<Rightarrow> ticket" where
  "assign (Set_ticketNumber v) t = t\<lparr>ticketNumber := v\<rparr>"
| "assign (Set_title v) t = t\<lparr>title := v\<rparr>"
| "assign (Set_description v) t = t\<lparr>description := v\<rparr>"
| "assign (Set_status v) t = t\<lparr>status := v\<rparr>"
| "assign (Set_priority v) t = t\<lparr>priority := v\<rparr>"
| "assign (Set_category_ID v) t = t\<lparr>category_ID := v\<rparr>"
| "assign (Set_department_ID v) t = t\<lparr>department_ID := v\<rparr>"
| "assign (Set_reporter_ID v) t = t\<lparr>reporter_ID := v\<rparr>"
| "assign (Set_assignedTo_ID v) t = t\<lparr>assignedTo_ID := v\<rparr>"
| "assign (Set_resolvedAt v) t = t\<lparr>resolvedAt := v\<rparr>"
| "assign (Set_closedAt v) t = t\<lparr>closedAt := v\<rparr>"
| "assign (Set_dueDate v) t = t\<lparr>dueDate := v\<rparr>"
| "assign (Set_resolutionNote v) t = t\<lparr>resolutionNote := v\<rparr>"
| "assign (Set_isOverdue v) t = t\<lparr>isOverdue := v\<rparr>"

text \<open>\<open>UPDATE(Tickets).set({...}).where({ ID: ticketID })\<close>: every row with that key.\<close>

definition UPDATE_Tickets :: "assignment list \<Rightarrow> jsstring \<Rightarrow> world \<Rightarrow> world" where
  "UPDATE_Tickets sets ticketID w =
     w\<lparr>Tickets := map (\<lambda>t. if ID t = ticketID then fold assign sets t else t) (Tickets w)\<rparr>"

text \<open>\<open>INSERT.into(Comments).entries({...})\<close>\<close>

definition INSERT_Comments :: "comment \<Rightarrow> world \<Rightarrow> world" where
  "INSERT_Comments c w = w\<lparr>Comments := Comments w @ [c]\<rparr>"

section \<open>Private helpers\<close>

text \<open>
  \<open>_logAudit\<close> and \<open>_escalatePriority\<close> are written without their leading
  underscore, which an Isabelle name cannot carry.

  \<open>_logAudit\<close>: one row appended to AuditLogs, stamped with a fresh clock reading.
\<close>

definition logAudit ::
  "jsstring \<Rightarrow> jsstring \<Rightarrow> jsstring option \<Rightarrow> jsstring option \<Rightarrow> jsstring option \<Rightarrow> world \<Rightarrow> world"
where
  "logAudit ticketID act old new by w =
     (let (d, w1) = new_Date w
      in w1\<lparr>AuditLogs := AuditLogs w1 @
            [\<lparr>ticket_ID = ticketID,
              action = act,
              oldValue = (if falsy old then None else old),
              newValue = (if falsy new then None else new),
              performedBy = or_else by (lit ''System''),
              performedAt = toISOString d\<rparr>]\<rparr>)"

text \<open>\<open>!v || v.trim().length < n\<close>\<close>

definition too_short :: "jsstring option \<Rightarrow> nat \<Rightarrow> bool" where
  "too_short v n = (case v of None \<Rightarrow> True | Some s \<Rightarrow> s = [] \<or> length (trim s) < n)"

text \<open>
  \<open>_escalatePriority\<close> reads \<open>levels[current]\<close> on an object literal. The property
  key is the string of \<open>current\<close>. An object literal answers for its own keys and,
  through its prototype, for the member names of \<open>Object.prototype\<close>, where it finds
  a function or an object: a value that is not a string, and is truthy. Any other key
  gives \<open>undefined\<close>.
\<close>

datatype jsvalue = JString jsstring | JInherited jsstring

definition levels :: "(jsstring \<times> jsstring) list" where
  "levels = [(lit ''LOW'', lit ''MEDIUM''), (lit ''MEDIUM'', lit ''HIGH''),
             (lit ''HIGH'', lit ''CRITICAL''), (lit ''CRITICAL'', lit ''CRITICAL'')]"

definition Object_prototype :: "jsstring list" where
  "Object_prototype = map lit
     [''constructor'', ''hasOwnProperty'', ''isPrototypeOf'', ''propertyIsEnumerable'',
      ''toLocaleString'', ''toString'', ''valueOf'', ''__proto__'', ''__defineGetter__'',
      ''__defineSetter__'', ''__lookupGetter__'', ''__lookupSetter__'']"

definition get_property :: "(jsstring \<times> jsstring) list \<Rightarrow> jsstring \<Rightarrow> jsvalue option" where
  "get_property obj key =
     (case map_of obj key of
        Some v \<Rightarrow> Some (JString v)
      | None \<Rightarrow> if key \<in> set Object_prototype then Some (JInherited key) else None)"

definition escalatePriority :: "jsstring option \<Rightarrow> jsvalue" where
  "escalatePriority current =
     (case get_property levels (interp current) of
        None \<Rightarrow> JString (lit ''HIGH'')
      | Some (JString s) \<Rightarrow> if s = [] then JString (lit ''HIGH'') else JString s
      | Some (JInherited k) \<Rightarrow> JInherited k)"

section \<open>Actions\<close>

text \<open>
  An action returns the error it signalled, or the row it reloaded at the end, together
  with the store it leaves behind.
\<close>

type_synonym 'a result = "(error + 'a) \<times> world"

text \<open>\<open>SELECT.one.from(Agents).where({ ID: agentID, isActive: true })\<close>\<close>

definition SELECT_one_Agents :: "jsstring \<Rightarrow> world \<Rightarrow> agent option" where
  "SELECT_one_Agents agentID w =
     find (\<lambda>a. Agents_ID a = agentID \<and> Agents_isActive a = Some True) (Agents w)"

definition assignAgent ::
  "jsstring \<Rightarrow> jsstring \<Rightarrow> jsstring option \<Rightarrow> world \<Rightarrow> ticket option result" where
  "assignAgent ticketID agentID remarks w =
     (case SELECT_one_Tickets ticketID w of
        None \<Rightarrow> (Inl (Error 404 (lit ''Ticket not found: '' @ ticketID)), w)
      | Some ticket \<Rightarrow>
          if status ticket = Some (lit ''CLOSED'') then
            (Inl (Error 409 (lit ''Cannot assign agent to a closed ticket'')), w)
          else
            (case SELECT_one_Agents agentID w of
               None \<Rightarrow> (Inl (Error 404 (lit ''Active agent not found: '' @ agentID)), w)
             | Some agent \<Rightarrow>
                 let oldAgent = assignedTo_ID ticket;
                     w1 = UPDATE_Tickets
                            [Set_assignedTo_ID (Some agentID),
                             Set_status (Some (lit ''IN_PROGRESS''))]
                            ticketID w;
                     w2 = logAudit ticketID (lit ''Agent Assigned'')
                            (Some (if falsy oldAgent then lit ''Unassigned''
                                   else lit ''Agent: '' @ interp oldAgent))
                            (Some (lit ''Agent: '' @ Agents_name agent))
                            (Some (or_else remarks (lit ''System''))) w1
                 in (Inr (SELECT_one_Tickets ticketID w2), w2)))"

definition validPriorities :: "jsstring list" where
  "validPriorities = [lit ''LOW'', lit ''MEDIUM'', lit ''HIGH'', lit ''CRITICAL'']"

fun join :: "jsstring \<Rightarrow> jsstring list \<Rightarrow> jsstring" where
  "join sep [] = []"
| "join sep [x] = x"
| "join sep (x # y # ys) = x @ sep @ join sep (y # ys)"

definition changePriority ::
  "jsstring \<Rightarrow> jsstring option \<Rightarrow> jsstring option \<Rightarrow> world \<Rightarrow> ticket option result" where
  "changePriority ticketID priority' reason w =
     (if \<not> includes_js validPriorities priority' then
        (Inl (Error 400
           (lit ''Invalid priority. Must be one of: '' @ join (lit '', '') validPriorities)), w)
      else
        (case SELECT_one_Tickets ticketID w of
           None \<Rightarrow> (Inl (Error 404 (lit ''Ticket not found: '' @ ticketID)), w)
         | Some ticket \<Rightarrow>
             let oldPriority = priority ticket;
                 w1 = UPDATE_Tickets [Set_priority priority'] ticketID w;
                 w2 = logAudit ticketID (lit ''Priority Changed'') oldPriority priority'
                        (Some (or_else reason (lit ''System''))) w1
             in (Inr (SELECT_one_Tickets ticketID w2), w2)))"

definition resolveTicket ::
  "jsstring \<Rightarrow> jsstring option \<Rightarrow> jsstring option \<Rightarrow> world \<Rightarrow> ticket option result" where
  "resolveTicket ticketID resolutionNote' agentName w =
     (case SELECT_one_Tickets ticketID w of
        None \<Rightarrow> (Inl (Error 404 (lit ''Ticket not found: '' @ ticketID)), w)
      | Some ticket \<Rightarrow>
          if includes_js [lit ''RESOLVED'', lit ''CLOSED''] (status ticket) then
            (Inl (Error 409 (lit ''Ticket is already '' @ toLowerCase (interp (status ticket)))), w)
          else if too_short resolutionNote' 10 then
            (Inl (Error 400 (lit ''Resolution note must be at least 10 characters long'')), w)
          else
            let (d, w1) = new_Date w;
                resolvedAt' = toISOString d;
                w2 = UPDATE_Tickets
                       [Set_status (Some (lit ''RESOLVED'')), Set_resolvedAt (Some resolvedAt'),
                        Set_resolutionNote resolutionNote']
                       ticketID w1;
                w3 = INSERT_Comments
                       \<lparr>Comments_ticket_ID = ticketID,
                        content = [0x2705] @ lit '' Ticket resolved. Note: ''
                                    @ interp resolutionNote',
                        isInternal = False,
                        authorName = or_else agentName (lit ''Support Agent''),
                        authorEmail = []\<rparr> w2;
                w4 = logAudit ticketID (lit ''Ticket Resolved'') (status ticket)
                       (Some (lit ''RESOLVED'')) (Some (or_else agentName (lit ''System''))) w3
            in (Inr (SELECT_one_Tickets ticketID w4), w4))"

definition closeTicket :: "jsstring \<Rightarrow> jsstring option \<Rightarrow> world \<Rightarrow> ticket option result" where
  "closeTicket ticketID agentName w =
     (case SELECT_one_Tickets ticketID w of
        None \<Rightarrow> (Inl (Error 404 (lit ''Ticket not found: '' @ ticketID)), w)
      | Some ticket \<Rightarrow>
          if status ticket = Some (lit ''CLOSED'') then
            (Inl (Error 409 (lit ''Ticket is already closed'')), w)
          else if status ticket \<noteq> Some (lit ''RESOLVED'') then
            (Inl (Error 409
               (lit ''Only resolved tickets can be closed. Please resolve the ticket first'')), w)
          else
            let (d, w1) = new_Date w;
                closedAt' = toISOString d;
                w2 = UPDATE_Tickets
                       [Set_status (Some (lit ''CLOSED'')), Set_closedAt (Some closedAt')]
                       ticketID w1;
                w3 = logAudit ticketID (lit ''Ticket Closed'')
                       (Some (lit ''RESOLVED'')) (Some (lit ''CLOSED''))
                       (Some (or_else agentName (lit ''System''))) w2
            in (Inr (SELECT_one_Tickets ticketID w3), w3))"

text \<open>
  In \<open>escalateTicket\<close> the value of \<open>_escalatePriority\<close> goes into \<open>.set({...})\<close>. When
  it is a string, the row is written. When it is a member inherited from
  \<open>Object.prototype\<close>, the query layer is handed a function or an object for a String
  column. What the query layer does with such a value is outside this service; here the
  request is taken to fail at that point (status 500) before anything is written. No
  statement below about a successful escalation depends on this branch.
\<close>

definition escalateTicket ::
  "jsstring \<Rightarrow> jsstring option \<Rightarrow> jsstring option \<Rightarrow> world \<Rightarrow> ticket option result" where
  "escalateTicket ticketID reason agentName w =
     (case SELECT_one_Tickets ticketID w of
        None \<Rightarrow> (Inl (Error 404 (lit ''Ticket not found: '' @ ticketID)), w)
      | Some ticket \<Rightarrow>
          if includes_js [lit ''RESOLVED'', lit ''CLOSED''] (status ticket) then
            (Inl (Error 409 (lit ''Cannot escalate a resolved or closed ticket'')), w)
          else
            let oldPriority = priority ticket
            in (case escalatePriority oldPriority of
                  JInherited k \<Rightarrow> (Inl (Error 500 []), w)
                | JString newPriority \<Rightarrow>
                    let w1 = UPDATE_Tickets
                               [Set_priority (Some newPriority),
                                Set_status (Some (lit ''IN_PROGRESS''))]
                               ticketID w;
                        w2 = INSERT_Comments
                               \<lparr>Comments_ticket_ID = ticketID,
                                content = [0x26A0, 0xFE0F] @ lit '' Ticket escalated. Reason: ''
                                            @ or_else reason (lit ''No reason provided''),
                                isInternal = True,
                                authorName = or_else agentName (lit ''System''),
                                authorEmail = []\<rparr> w1;
                        w3 = logAudit ticketID (lit ''Ticket Escalated'')
                               (Some (lit ''Priority: '' @ interp oldPriority))
                               (Some (lit ''Priority: '' @ newPriority))
                               (Some (or_else agentName (lit ''System''))) w2
                    in (Inr (SELECT_one_Tickets ticketID w3), w3)))"

definition reopenTicket ::
  "jsstring \<Rightarrow> jsstring option \<Rightarrow> jsstring option \<Rightarrow> world \<Rightarrow> ticket option result" where
  "reopenTicket ticketID reason agentName w =
     (case SELECT_one_Tickets ticketID w of
        None \<Rightarrow> (Inl (Error 404 (lit ''Ticket not found: '' @ ticketID)), w)
      | Some ticket \<Rightarrow>
          if \<not> includes_js [lit ''RESOLVED'', lit ''CLOSED''] (status ticket) then
            (Inl (Error 409 (lit ''Only resolved or closed tickets can be reopened'')), w)
          else if too_short reason 5 then
            (Inl (Error 400 (lit ''A reason must be provided to reopen a ticket'')), w)
          else
            let w1 = UPDATE_Tickets
                       [Set_status (Some (lit ''OPEN'')), Set_resolvedAt None, Set_closedAt None,
                        Set_resolutionNote None]
                       ticketID w;
                w2 = INSERT_Comments
                       \<lparr>Comments_ticket_ID = ticketID,
                        content = [0xD83D, 0xDD04] @ lit '' Ticket reopened. Reason: ''
                                    @ interp reason,
                        isInternal = False,
                        authorName = or_else agentName (lit ''System''),
                        authorEmail = []\<rparr> w1;
                w3 = logAudit ticketID (lit ''Ticket Reopened'') (status ticket)
                       (Some (lit ''OPEN'')) (Some (or_else agentName (lit ''System''))) w2
            in (Inr (SELECT_one_Tickets ticketID w3), w3))"

section \<open>Creating and updating through the generic interface\<close>

text \<open>\<open>String(n)\<close> for a whole number, and \<open>padStart\<close>.\<close>

function String_nat :: "nat \<Rightarrow> jsstring" where
  "String_nat n =
     (if n < 10 then [0x30 + of_nat n] else String_nat (n div 10) @ [0x30 + of_nat (n mod 10)])"
  by pat_completeness auto
termination
  by (relation "measure id") auto

declare String_nat.simps [simp del]

definition String_int :: "int \<Rightarrow> jsstring" where
  "String_int i = (if i < 0 then 0x2D # String_nat (nat (- i)) else String_nat (nat i))"

definition padStart :: "nat \<Rightarrow> 16 word \<Rightarrow> jsstring \<Rightarrow> jsstring" where
  "padStart n c s = replicate (n - length s) c @ s"

text \<open>\<open>SELECT.one.from(Categories).where({ ID: req.data.category_ID })\<close>\<close>

definition SELECT_one_Categories :: "jsstring \<Rightarrow> world \<Rightarrow> category option" where
  "SELECT_one_Categories categoryID w = find (\<lambda>c. Categories_ID c = categoryID) (Categories w)"

text \<open>
  The first handler before CREATE: ticket number, due date, status. \<open>count(*)\<close> is the
  number of rows of Tickets. \<open>setHours(getHours() + h)\<close> moves the instant by \<open>h\<close>
  hours (local time without a daylight-saving change in between).
\<close>

definition before_CREATE_Tickets_1 :: "ticket \<Rightarrow> world \<Rightarrow> ticket \<times> world" where
  "before_CREATE_Tickets_1 data w =
     (let (d, w1) = new_Date w;
          year = getFullYear d;
          total = length (Tickets w1);
          seq = padStart 5 0x30 (String_nat (total + 1));
          data1 = data\<lparr>ticketNumber := Some (lit ''TKT-'' @ String_int year @ lit ''-'' @ seq)\<rparr>;
          (data2, w2) =
            (if falsy (category_ID data1) then (data1, w1)
             else
               (case SELECT_one_Categories (interp (category_ID data1)) w1 of
                  None \<Rightarrow> (data1, w1)
                | Some category \<Rightarrow>
                    (case slaHours category of
                       None \<Rightarrow> (data1, w1)
                     | Some h \<Rightarrow>
                         if h = 0 then (data1, w1)
                         else
                           let (due, w') = new_Date w1
                           in (data1\<lparr>dueDate := Some (getTime due + h * 3600000)\<rparr>, w'))))
      in (data2\<lparr>status := Some (lit ''OPEN'')\<rparr>, w2))"

text \<open>The second handler before CREATE: validation. \<open>req.error\<close> collects.\<close>

definition before_CREATE_Tickets_2 :: "ticket \<Rightarrow> error list" where
  "before_CREATE_Tickets_2 data =
     (if too_short (title data) 5
      then [Error 400 (lit ''Ticket title must be at least 5 characters long'')] else [])
     @ (if too_short (description data) 10
        then [Error 400 (lit ''Ticket description must be at least 10 characters long'')] else [])
     @ (if falsy (reporter_ID data)
        then [Error 400 (lit ''Reporter is required to create a ticket'')] else [])"

definition after_CREATE_Tickets :: "ticket \<Rightarrow> world \<Rightarrow> world" where
  "after_CREATE_Tickets ticket w =
     logAudit (ID ticket) (lit ''Ticket Created'') None (status ticket) (Some (lit ''System'')) w"

text \<open>
  The generic handler inserts the payload as a row: the key must be new, \<open>createdAt\<close>
  is stamped, and the columns left out take their defaults (priority \<open>'MEDIUM'\<close>,
  isOverdue false). The payload arrives with its key filled in.
\<close>

definition INSERT_Tickets :: "ticket \<Rightarrow> world \<Rightarrow> (error list + ticket) \<times> world" where
  "INSERT_Tickets data w =
     (if ID data \<in> set (map ID (Tickets w)) then
        (Inl [Error 400 (lit ''ENTITY_ALREADY_EXISTS'')], w)
      else
        let (d, w1) = new_Date w;
            row = data\<lparr>createdAt := Some (toISOString d),
                        priority := (case priority data of None \<Rightarrow> Some (lit ''MEDIUM'')
                                     | Some p \<Rightarrow> Some p),
                        isOverdue := (case isOverdue data of None \<Rightarrow> Some False
                                      | Some b \<Rightarrow> Some b)\<rparr>
        in (Inr row, w1\<lparr>Tickets := Tickets w1 @ [row]\<rparr>))"

text \<open>
  A create request: the handlers before, rejection when errors were collected, the insert,
  the handler after.
\<close>

definition CREATE_Tickets :: "ticket \<Rightarrow> world \<Rightarrow> (error list + ticket) \<times> world" where
  "CREATE_Tickets data w =
     (let (data1, w1) = before_CREATE_Tickets_1 data w;
          errors = before_CREATE_Tickets_2 data1
      in if errors \<noteq> [] then (Inl errors, w1)
         else
           (case INSERT_Tickets data1 w1 of
              (Inl e, w2) \<Rightarrow> (Inl e, w2)
            | (Inr ticket, w2) \<Rightarrow> (Inr ticket, after_CREATE_Tickets ticket w2)))"

text \<open>The handler before UPDATE, on the key of the payload.\<close>

definition before_UPDATE_Tickets :: "jsstring \<Rightarrow> world \<Rightarrow> error list" where
  "before_UPDATE_Tickets data_ID w =
     (case SELECT_one_Tickets data_ID w of
        None \<Rightarrow> []
      | Some ticket \<Rightarrow>
          if status ticket = Some (lit ''CLOSED'') then
            [Error 409 (lit ''Ticket '' @ interp (ticketNumber ticket)
                          @ lit '' is closed and cannot be modified'')]
          else [])"

text \<open>
  An update request: the handler before, rejection when it collected an error, then the
  generic handler writes the payload's columns to the row with that key (404 when there
  is none).
\<close>

definition UPDATE_request_Tickets ::
  "jsstring \<Rightarrow> assignment list \<Rightarrow> world \<Rightarrow> (error list + ticket option) \<times> world" where
  "UPDATE_request_Tickets data_ID payload w =
     (let errors = before_UPDATE_Tickets data_ID w
      in if errors \<noteq> [] then (Inl errors, w)
         else
           (case SELECT_one_Tickets data_ID w of
              None \<Rightarrow> (Inl [Error 404 (lit ''Not Found'')], w)
            | Some _ \<Rightarrow>
                let w1 = UPDATE_Tickets payload data_ID w
                in (Inr (SELECT_one_Tickets data_ID w1), w1)))"

section \<open>Queries\<close>

text \<open>
  \<open>orderBy('priority desc, createdAt asc')\<close> is carried out by the database on the
  columns as they are stored: \<open>priority\<close> is a String column, compared as strings (code
  unit by code unit, \<open>NULL\<close> below every value); rows that tie stay in table order.
  \<open>precedes a b\<close>: row \<open>a\<close> sorts strictly before row \<open>b\<close>.
\<close>

definition precedes :: "ticket \<Rightarrow> ticket \<Rightarrow> bool" where
  "precedes a b \<longleftrightarrow>
     priority a > priority b \<or> (priority a = priority b \<and> createdAt a < createdAt b)"

fun insert_row :: "ticket \<Rightarrow> ticket list \<Rightarrow> ticket list" where
  "insert_row x [] = [x]"
| "insert_row x (y # ys) = (if precedes y x then y # insert_row x ys else x # y # ys)"

definition orderBy_priority_desc_createdAt_asc :: "ticket list \<Rightarrow> ticket list" where
  "orderBy_priority_desc_createdAt_asc rows = foldr insert_row rows []"

text \<open>\<open>where({ assignedTo_ID: agentID, status: { '!=': 'CLOSED' } })\<close>: the query layer's
  \<open>!=\<close> is two-valued, a row without status is not \<open>'CLOSED'\<close>.\<close>

definition getAgentTickets :: "jsstring \<Rightarrow> world \<Rightarrow> ticket list" where
  "getAgentTickets agentID w =
     orderBy_priority_desc_createdAt_asc
       (filter (\<lambda>t. assignedTo_ID t = Some agentID \<and> status t \<noteq> Some (lit ''CLOSED''))
          (Tickets w))"

section \<open>Sequences of lifecycle operations\<close>

datatype operation =
    Create ticket
  | AssignAgent jsstring jsstring "jsstring option"
  | ChangePriority jsstring "jsstring option" "jsstring option"
  | ResolveTicket jsstring "jsstring option" "jsstring option"
  | CloseTicket jsstring "jsstring option"
  | EscalateTicket jsstring "jsstring option" "jsstring option"
  | ReopenTicket jsstring "jsstring option" "jsstring option"

definition succeeded :: "('e + 'a) \<times> world \<Rightarrow> bool \<times> world" where
  "succeeded r = (case r of (Inl _, w) \<Rightarrow> (False, w) | (Inr _, w) \<Rightarrow> (True, w))"

text \<open>One request: whether it succeeded, and the store after it.\<close>

fun perform :: "operation \<Rightarrow> world \<Rightarrow> bool \<times> world" where
  "perform (Create data) w = succeeded (CREATE_Tickets data w)"
| "perform (AssignAgent ticketID agentID remarks) w =
     succeeded (assignAgent ticketID agentID remarks w)"
| "perform (ChangePriority ticketID p reason) w = succeeded (changePriority ticketID p reason w)"
| "perform (ResolveTicket ticketID note agentName) w =
     succeeded (resolveTicket ticketID note agentName w)"
| "perform (CloseTicket ticketID agentName) w = succeeded (closeTicket ticketID agentName w)"
| "perform (EscalateTicket ticketID reason agentName) w =
     succeeded (escalateTicket ticketID reason agentName w)"
| "perform (ReopenTicket ticketID reason agentName) w =
     succeeded (reopenTicket ticketID reason agentName w)"

fun run :: "operation list \<Rightarrow> world \<Rightarrow> world" where
  "run [] w = w"
| "run (op # ops) w = run ops (snd (perform op w))"

text \<open>The ticket an operation is about.\<close>

fun affected :: "operation \<Rightarrow> jsstring" where
  "affected (Create data) = ID data"
| "affected (AssignAgent ticketID _ _) = ticketID"
| "affected (ChangePriority ticketID _ _) = ticketID"
| "affected (ResolveTicket ticketID _ _) = ticketID"
| "affected (CloseTicket ticketID _) = ticketID"
| "affected (EscalateTicket ticketID _ _) = ticketID"
| "affected (ReopenTicket ticketID _ _) = ticketID"

section \<open>A small store\<close>

text \<open>Four tickets of 2024, one agent, one category, and a clock in 2025.\<close>

definition no_ticket :: ticket where
  "no_ticket =
     \<lparr>ID = [], createdAt = None, ticketNumber = None, title = None, description = None,
      status = None, priority = None, category_ID = None, department_ID = None,
      reporter_ID = None, assignedTo_ID = None, resolvedAt = None, closedAt = None,
      dueDate = None, resolutionNote = None, isOverdue = None\<rparr>"

definition tkt_0001 :: ticket where
  "tkt_0001 = no_ticket
     \<lparr>ID := lit ''tkt-0001'', createdAt := Some 1704100000000,
      ticketNumber := Some (lit ''TKT-2024-00001''),
      title := Some (lit ''Screen flickering''),
      description := Some (lit ''The laptop screen flickers all day''),
      status := Some (lit ''IN_PROGRESS''), priority := Some (lit ''CRITICAL''),
      reporter_ID := Some (lit ''emp-0001''), assignedTo_ID := Some (lit ''agt-0001''),
      isOverdue := Some False\<rparr>"

definition tkt_0002 :: ticket where
  "tkt_0002 = no_ticket
     \<lparr>ID := lit ''tkt-0002'', createdAt := Some 1704200000000,
      ticketNumber := Some (lit ''TKT-2024-00002''),
      title := Some (lit ''VPN not connecting''),
      description := Some (lit ''The VPN client times out at login''),
      status := Some (lit ''OPEN''), priority := Some (lit ''MEDIUM''),
      reporter_ID := Some (lit ''emp-0002''), assignedTo_ID := Some (lit ''agt-0001''),
      isOverdue := Some False\<rparr>"

definition tkt_0003 :: ticket where
  "tkt_0003 = no_ticket
     \<lparr>ID := lit ''tkt-0003'', createdAt := Some 1704300000000,
      ticketNumber := Some (lit ''TKT-2024-00003''),
      title := Some (lit ''Password reset''),
      description := Some (lit ''The account is locked after three attempts''),
      status := Some (lit ''RESOLVED''), priority := Some (lit ''HIGH''),
      reporter_ID := Some (lit ''emp-0001''),
      resolvedAt := Some 1704400000000,
      resolutionNote := Some (lit ''Password was reset by the service desk''),
      isOverdue := Some False\<rparr>"

definition tkt_0004 :: ticket where
  "tkt_0004 = no_ticket
     \<lparr>ID := lit ''tkt-0004'', createdAt := Some 1704500000000,
      ticketNumber := Some (lit ''TKT-2024-00004''),
      title := Some (lit ''Printer not working''),
      description := Some (lit ''The office printer on 3rd floor is jammed''),
      status := Some (lit ''CLOSED''), priority := Some (lit ''LOW''),
      reporter_ID := Some (lit ''emp-0003''), assignedTo_ID := Some (lit ''agt-0001''),
      resolvedAt := Some 1704600000000, closedAt := Some 1704700000000,
      resolutionNote := Some (lit ''Paper jam removed and test page printed''),
      isOverdue := Some False\<rparr>"

definition example_clock :: "nat \<Rightarrow> Date" where
  "example_clock n = \<lparr>getTime = 1750000000000 + int n, getFullYear = 2025\<rparr>"

definition example_store :: world where
  "example_store =
     \<lparr>Tickets = [tkt_0001, tkt_0002, tkt_0003, tkt_0004],
      Agents = [\<lparr>Agents_ID = lit ''agt-0001'', Agents_name = lit ''John Smith'',
                 Agents_isActive = Some True\<rparr>],
      Categories = [\<lparr>Categories_ID = lit ''cat-0002'', slaHours = Some 24\<rparr>],
      Comments = [],
      AuditLogs = [],
      clock = example_clock,
      reads = 0\<rparr>"

text \<open>A payload for a create request, and the row it becomes in the small store.\<close>

definition new_ticket :: ticket where
  "new_ticket = no_ticket
     \<lparr>ID := lit ''tkt-0005'',
      title := Some (lit ''Monitor has no signal''),
      description := Some (lit ''The second monitor stays black after docking''),
      priority := Some (lit ''HIGH''),
      category_ID := Some (lit ''cat-0002''),
      reporter_ID := Some (lit ''emp-0001'')\<rparr>"

definition created_ticket :: ticket where
  "created_ticket = new_ticket
     \<lparr>ticketNumber := Some (lit ''TKT-2025-00005''), dueDate := Some 1750086400001,
      status := Some (lit ''OPEN''), createdAt := Some 1750000000002,
      priority := Some (lit ''HIGH''), isOverdue := Some False\<rparr>"

text \<open>The small store before its fourth ticket, and a resolve followed by a close.\<close>

definition three_tickets :: world where
  "three_tickets = example_store\<lparr>Tickets := [tkt_0001, tkt_0002, tkt_0003]\<rparr>"

definition example_ops :: "operation list" where
  "example_ops =
     [ResolveTicket (lit ''tkt-0002'') (Some (lit ''Client configuration was updated''))
        (Some (lit ''Mike Chen'')),
      CloseTicket (lit ''tkt-0002'') (Some (lit ''Mike Chen''))]"

section \<open>Invariants and the numbering scheme, as stated and as implemented\<close>

text \<open>
  The invariant in the words of the specification: \<open>resolvedAt\<close> is set if and only if
  the status is \<open>'RESOLVED'\<close>, \<open>closedAt\<close> if and only if it is \<open>'CLOSED'\<close>.
\<close>

definition resolvedAt_closedAt_iff :: "world \<Rightarrow> bool" where
  "resolvedAt_closedAt_iff w \<longleftrightarrow>
     (\<forall>t \<in> set (Tickets w).
        (resolvedAt t \<noteq> None \<longleftrightarrow> status t = Some (lit ''RESOLVED''))
      \<and> (closedAt t \<noteq> None \<longleftrightarrow> status t = Some (lit ''CLOSED'')))"

text \<open>
  What the actions keep: keys are unique, a resolved ticket has \<open>resolvedAt\<close>, a closed
  ticket has \<open>closedAt\<close> and still has \<open>resolvedAt\<close>.
\<close>

definition timestamps_follow_status :: "world \<Rightarrow> bool" where
  "timestamps_follow_status w \<longleftrightarrow>
     distinct (map ID (Tickets w))
     \<and> (\<forall>t \<in> set (Tickets w).
          (status t = Some (lit ''RESOLVED'') \<longrightarrow> resolvedAt t \<noteq> None)
        \<and> (status t = Some (lit ''CLOSED'') \<longrightarrow> closedAt t \<noteq> None \<and> resolvedAt t \<noteq> None))"

text \<open>Only a closed ticket has \<open>closedAt\<close>.\<close>

definition closedAt_only_closed :: "world \<Rightarrow> bool" where
  "closedAt_only_closed w \<longleftrightarrow>
     (\<forall>t \<in> set (Tickets w). closedAt t \<noteq> None \<longrightarrow> status t = Some (lit ''CLOSED''))"

text \<open>The create payloads of a sequence of operations carry no \<open>closedAt\<close> of their own.\<close>

fun payload_closedAt :: "operation \<Rightarrow> timestamp option" where
  "payload_closedAt (Create data) = closedAt data"
| "payload_closedAt _ = None"

text \<open>
  The numbering scheme in the words of the specification: a counter per calendar year,
  so that the next number of a year is one more than the count of the tickets numbered
  in that year.
\<close>

definition numbered_in :: "int \<Rightarrow> ticket \<Rightarrow> bool" where
  "numbered_in year t =
     (case ticketNumber t of
        None \<Rightarrow> False
      | Some n \<Rightarrow> take (length (lit ''TKT-'' @ String_int year @ lit ''-'')) n
                  = lit ''TKT-'' @ String_int year @ lit ''-'')"

definition ticketNumber_per_year :: "int \<Rightarrow> ticket list \<Rightarrow> jsstring" where
  "ticketNumber_per_year year rows =
     lit ''TKT-'' @ String_int year @ lit ''-''
       @ padStart 5 0x30 (String_nat (length (filter (numbered_in year) rows) + 1))"

text \<open>What an action leaves in the table: the rows as they were, or the found row rewritten.\<close>

definition rewritten :: "jsstring \<Rightarrow> (ticket \<Rightarrow> bool) \<Rightarrow> assignment list \<Rightarrow> world \<Rightarrow> world \<Rightarrow> bool" where
  "rewritten k C sets w w' \<longleftrightarrow>
     Tickets w' = Tickets w
     \<or> (\<exists>t0. SELECT_one_Tickets k w = Some t0 \<and> C t0
            \<and> Tickets w' = map (\<lambda>t. if ID t = k then fold assign sets t else t) (Tickets w))"

section \<open>Facts about strings and the store\<close>

lemma of_char_lt_256: "(of_char c :: nat) < 256"
  by (cases c) (simp add: of_char_def)

lemma unat_of_char: "unat (of_char c :: 16 word) = of_char c"
proof -
  have "(of_char c :: 16 word) = of_nat (of_char c)"
    by (simp add: of_nat_of_char)
  then have "unat (of_char c :: 16 word) = (of_char c :: nat) mod 2 ^ 16"
    by (simp add: unat_of_nat)
  also have "\<dots> = (of_char c :: nat)"
    by (rule mod_less, rule less_trans [OF of_char_lt_256]) simp
  finally show ?thesis .
qed

lemma of_char_word_eq_iff: "((of_char c :: 16 word) = of_char d) = (c = d)"
  by (metis unat_of_char of_char_eq_iff)

lemma lit_eq_iff [simp]: "lit a = lit b \<longleftrightarrow> a = b"
  unfolding lit_def by (simp add: inj_map_eq_map inj_def of_char_word_eq_iff)

lemma lit_eq_Nil [simp]: "lit a = [] \<longleftrightarrow> a = []"
  by (simp add: lit_def)

lemma find_map_update:
  "find (\<lambda>t. ID t = k) (map (\<lambda>t. if ID t = k then f t else t) ts)
     = map_option f (find (\<lambda>t. ID t = k) ts)" if "\<And>t. ID (f t) = ID t"
  using that by (induction ts) auto

lemma ID_assign [simp]: "ID (assign a t) = ID t"
  by (cases a) simp_all

lemma ID_fold_assign [simp]: "ID (fold assign sets t) = ID t"
  by (induction sets arbitrary: t) simp_all

lemma SELECT_one_UPDATE:
  "SELECT_one_Tickets k (UPDATE_Tickets sets k w)
     = map_option (fold assign sets) (SELECT_one_Tickets k w)"
  by (simp add: SELECT_one_Tickets_def UPDATE_Tickets_def find_map_update)

lemma Tickets_new_Date [simp]: "Tickets (snd (new_Date w)) = Tickets w"
  by (simp add: new_Date_def)

lemma Tickets_logAudit [simp]: "Tickets (logAudit k a old new by w) = Tickets w"
  by (simp add: logAudit_def new_Date_def)

lemma SELECT_one_logAudit [simp]:
  "SELECT_one_Tickets k (logAudit k' a old new by w) = SELECT_one_Tickets k w"
  by (simp add: SELECT_one_Tickets_def)

lemma Tickets_INSERT_Comments [simp]: "Tickets (INSERT_Comments c w) = Tickets w"
  by (simp add: INSERT_Comments_def)

lemma SELECT_one_INSERT_Comments [simp]:
  "SELECT_one_Tickets k (INSERT_Comments c w) = SELECT_one_Tickets k w"
  by (simp add: SELECT_one_Tickets_def)

lemma SELECT_one_reads [simp]:
  "SELECT_one_Tickets k (w\<lparr>reads := n\<rparr>) = SELECT_one_Tickets k w"
  by (simp add: SELECT_one_Tickets_def)

lemma includes_js_iff: "includes_js xs v \<longleftrightarrow> v \<in> Some ` set xs"
  by (cases v) (auto simp: includes_js_def)

lemma valid_priority_iff:
  "includes_js validPriorities p \<longleftrightarrow>
     p \<in> {Some (lit ''LOW''), Some (lit ''MEDIUM''), Some (lit ''HIGH''), Some (lit ''CRITICAL'')}"
  by (auto simp: includes_js_iff validPriorities_def)

lemma terminal_iff:
  "includes_js [lit ''RESOLVED'', lit ''CLOSED''] s \<longleftrightarrow>
     s \<in> {Some (lit ''RESOLVED''), Some (lit ''CLOSED'')}"
  by (auto simp: includes_js_iff)

lemma too_short_iff: "0 < n \<Longrightarrow> too_short v n \<longleftrightarrow> (\<forall>s. v = Some s \<longrightarrow> length (trim s) < n)"
  by (cases v) (auto simp: too_short_def trim_def)

subsection \<open>The small store\<close>

lemma example_IDs [simp]:
  "ID tkt_0001 = lit ''tkt-0001''" "ID tkt_0002 = lit ''tkt-0002''"
  "ID tkt_0003 = lit ''tkt-0003''" "ID tkt_0004 = lit ''tkt-0004''"
  by (simp_all add: tkt_0001_def tkt_0002_def tkt_0003_def tkt_0004_def no_ticket_def)

lemma example_Tickets [simp]:
  "Tickets example_store = [tkt_0001, tkt_0002, tkt_0003, tkt_0004]"
  by (simp add: example_store_def)

lemma example_find:
  "SELECT_one_Tickets (lit ''tkt-0001'') example_store = Some tkt_0001"
  "SELECT_one_Tickets (lit ''tkt-0002'') example_store = Some tkt_0002"
  "SELECT_one_Tickets (lit ''tkt-0003'') example_store = Some tkt_0003"
  "SELECT_one_Tickets (lit ''tkt-0004'') example_store = Some tkt_0004"
  "SELECT_one_Tickets (lit ''tkt-0009'') example_store = None"
  by (simp_all add: SELECT_one_Tickets_def)

lemma example_status [simp]:
  "status tkt_0001 = Some (lit ''IN_PROGRESS'')" "status tkt_0002 = Some (lit ''OPEN'')"
  "status tkt_0003 = Some (lit ''RESOLVED'')" "status tkt_0004 = Some (lit ''CLOSED'')"
  by (simp_all add: tkt_0001_def tkt_0002_def tkt_0003_def tkt_0004_def no_ticket_def)

lemma trim_Fixed: "length (trim (lit ''Fixed'')) = 5"
  by (simp add: trim_def lit_def isWhiteSpace_def)

lemma trim_reason: "length (trim (lit ''  Issue is back  '')) = 13"
  by (simp add: trim_def lit_def isWhiteSpace_def)

section \<open>Closing a ticket\<close>

text \<open>
  C2. For a ticket that exists, \<open>closeTicket\<close> succeeds exactly when its status is
  \<open>'RESOLVED'\<close>: the row then gets the status \<open>'CLOSED'\<close> and the current clock
  reading as \<open>closedAt\<close>, and the reloaded row is returned. With any other status the
  action signals a 409 ConflictError and the store is left as it was.
\<close>

theorem closeTicket_iff_resolved:
  assumes "SELECT_one_Tickets ticketID w = Some t"
  shows "(status t = Some (lit ''RESOLVED'') \<longrightarrow>
            (\<exists>w'. closeTicket ticketID agentName w
                     = (Inr (Some (t\<lparr>status := Some (lit ''CLOSED''),
                                     closedAt := Some (toISOString (clock w (reads w)))\<rparr>)), w')
                 \<and> SELECT_one_Tickets ticketID w'
                     = Some (t\<lparr>status := Some (lit ''CLOSED''),
                               closedAt := Some (toISOString (clock w (reads w)))\<rparr>)))
       \<and> (status t \<noteq> Some (lit ''RESOLVED'') \<longrightarrow>
            (\<exists>m. closeTicket ticketID agentName w = (Inl (Error 409 m), w)))"
  using assms
  by (simp add: closeTicket_def SELECT_one_UPDATE new_Date_def Let_def
        SELECT_one_Tickets_def [of ticketID "w\<lparr>reads := Suc (reads w)\<rparr>"]
        SELECT_one_Tickets_def [of ticketID w, symmetric])

theorem closeTicket_iff_resolved_witness:
  "(\<exists>w'. closeTicket (lit ''tkt-0003'') None example_store
            = (Inr (Some (tkt_0003\<lparr>status := Some (lit ''CLOSED''),
                                   closedAt := Some 1750000000000\<rparr>)), w'))
   \<and> (\<exists>m. closeTicket (lit ''tkt-0002'') None example_store
            = (Inl (Error 409 m), example_store))"
proof -
  have found3: "SELECT_one_Tickets (lit ''tkt-0003'') example_store = Some tkt_0003"
    by (simp add: example_find)
  have found2: "SELECT_one_Tickets (lit ''tkt-0002'') example_store = Some tkt_0002"
    by (simp add: example_find)
  have s3: "status tkt_0003 = Some (lit ''RESOLVED'')"
    by (simp add: tkt_0003_def no_ticket_def)
  have s2: "status tkt_0002 \<noteq> Some (lit ''RESOLVED'')"
    by (simp add: tkt_0002_def no_ticket_def)
  have now: "toISOString (clock example_store (reads example_store)) = 1750000000000"
    by (simp add: example_store_def example_clock_def toISOString_def)
  show ?thesis
    using closeTicket_iff_resolved [OF found3, of None]
      closeTicket_iff_resolved [OF found2, of None] s3 s2 now
    by auto
qed

section \<open>Changing the priority\<close>

lemma closed_ticket_blocked:
  assumes "SELECT_one_Tickets ticketID w = Some t" and "status t = Some (lit ''CLOSED'')"
  shows "\<exists>m. assignAgent ticketID agentID remarks w = (Inl (Error 409 m), w)"
    and "\<exists>m. resolveTicket ticketID note agentName w = (Inl (Error 409 m), w)"
    and "\<exists>m. closeTicket ticketID agentName w = (Inl (Error 409 m), w)"
    and "\<exists>m. escalateTicket ticketID reason agentName w = (Inl (Error 409 m), w)"
    and "\<exists>m. UPDATE_request_Tickets ticketID payload w = (Inl [Error 409 m], w)"
  using assms
  by (simp_all add: assignAgent_def resolveTicket_def closeTicket_def escalateTicket_def
      UPDATE_request_Tickets_def before_UPDATE_Tickets_def includes_js_def)

lemma closed_ticket_reopens:
  assumes "SELECT_one_Tickets ticketID w = Some t" and "status t = Some (lit ''CLOSED'')"
    and "reason = Some r" and "5 \<le> length (trim r)"
  shows "\<exists>w'. reopenTicket ticketID reason agentName w
                = (Inr (Some (t\<lparr>status := Some (lit ''OPEN''), resolvedAt := None,
                                closedAt := None, resolutionNote := None\<rparr>)), w')"
proof -
  have "\<not> too_short reason 5"
    using assms(3,4) by (auto simp: too_short_def trim_def)
  with assms(1,2) show ?thesis
    by (simp add: reopenTicket_def SELECT_one_UPDATE Let_def includes_js_def)
qed

lemma changePriority_cases:
  "(p \<in> {Some (lit ''LOW''), Some (lit ''MEDIUM''), Some (lit ''HIGH''), Some (lit ''CRITICAL'')}
      \<and> SELECT_one_Tickets ticketID w = Some t \<longrightarrow>
      (\<exists>w'. changePriority ticketID p reason w = (Inr (Some (t\<lparr>priority := p\<rparr>)), w')
           \<and> SELECT_one_Tickets ticketID w' = Some (t\<lparr>priority := p\<rparr>)
           \<and> status (t\<lparr>priority := p\<rparr>) = status t))
   \<and> (p \<notin> {Some (lit ''LOW''), Some (lit ''MEDIUM''), Some (lit ''HIGH''), Some (lit ''CRITICAL'')}
      \<longrightarrow> (\<exists>m. changePriority ticketID p reason w = (Inl (Error 400 m), w)))
   \<and> (p \<in> {Some (lit ''LOW''), Some (lit ''MEDIUM''), Some (lit ''HIGH''), Some (lit ''CRITICAL'')}
      \<and> SELECT_one_Tickets ticketID w = None \<longrightarrow>
      (\<exists>m. changePriority ticketID p reason w = (Inl (Error 404 m), w)))"
  unfolding valid_priority_iff [symmetric]
  by (simp add: changePriority_def SELECT_one_UPDATE Let_def)

lemma closed_ticket_paths:
  "SELECT_one_Tickets ticketID w = Some t \<and> status t = Some (lit ''CLOSED'') \<longrightarrow>
        (\<exists>m. assignAgent ticketID agentID remarks w = (Inl (Error 409 m), w))
      \<and> (\<exists>m. resolveTicket ticketID resolution agentName w = (Inl (Error 409 m), w))
      \<and> (\<exists>m. closeTicket ticketID agentName w = (Inl (Error 409 m), w))
      \<and> (\<exists>m. escalateTicket ticketID why agentName w = (Inl (Error 409 m), w))
      \<and> (\<exists>m. UPDATE_request_Tickets ticketID payload w = (Inl [Error 409 m], w))
      \<and> (\<forall>r. again = Some r \<and> 5 \<le> length (trim r) \<longrightarrow>
           (\<exists>w'. reopenTicket ticketID again agentName w
                    = (Inr (Some (t\<lparr>status := Some (lit ''OPEN''), resolvedAt := None,
                                    closedAt := None, resolutionNote := None\<rparr>)), w')))"
proof (intro impI, elim conjE)
  assume a: "SELECT_one_Tickets ticketID w = Some t" and b: "status t = Some (lit ''CLOSED'')"
  from closed_ticket_blocked [OF a b] closed_ticket_reopens [OF a b]
  show "(\<exists>m. assignAgent ticketID agentID remarks w = (Inl (Error 409 m), w))
      \<and> (\<exists>m. resolveTicket ticketID resolution agentName w = (Inl (Error 409 m), w))
      \<and> (\<exists>m. closeTicket ticketID agentName w = (Inl (Error 409 m), w))
      \<and> (\<exists>m. escalateTicket ticketID why agentName w = (Inl (Error 409 m), w))
      \<and> (\<exists>m. UPDATE_request_Tickets ticketID payload w = (Inl [Error 409 m], w))
      \<and> (\<forall>r. again = Some r \<and> 5 \<le> length (trim r) \<longrightarrow>
           (\<exists>w'. reopenTicket ticketID again agentName w
                    = (Inr (Some (t\<lparr>status := Some (lit ''OPEN''), resolvedAt := None,
                                    closedAt := None, resolutionNote := None\<rparr>)), w')))"
    by blast
qed




section \<open>Reopening a ticket\<close>

text \<open>
  C8. For a ticket that exists with status \<open>'RESOLVED'\<close> or \<open>'CLOSED'\<close>,
  \<open>reopenTicket\<close> with a reason of at least 5 code units after trimming sets the status
  to \<open>'OPEN'\<close> and clears \<open>resolvedAt\<close>, \<open>closedAt\<close> and \<open>resolutionNote\<close>; with a
  reason that is missing or shorter it signals 400. With any other status it signals
  409. Both errors leave the store as it was.
\<close>

theorem reopenTicket_cases:
  assumes "SELECT_one_Tickets ticketID w = Some t"
  shows "(status t \<in> {Some (lit ''RESOLVED''), Some (lit ''CLOSED'')}
            \<and> (\<exists>r. reason = Some r \<and> 5 \<le> length (trim r)) \<longrightarrow>
          (\<exists>w'. reopenTicket ticketID reason agentName w
                   = (Inr (Some (t\<lparr>status := Some (lit ''OPEN''), resolvedAt := None,
                                   closedAt := None, resolutionNote := None\<rparr>)), w')
               \<and> SELECT_one_Tickets ticketID w'
                   = Some (t\<lparr>status := Some (lit ''OPEN''), resolvedAt := None,
                             closedAt := None, resolutionNote := None\<rparr>)))
       \<and> (status t \<in> {Some (lit ''RESOLVED''), Some (lit ''CLOSED'')}
            \<and> (\<forall>r. reason = Some r \<longrightarrow> length (trim r) < 5) \<longrightarrow>
          (\<exists>m. reopenTicket ticketID reason agentName w = (Inl (Error 400 m), w)))
       \<and> (status t \<notin> {Some (lit ''RESOLVED''), Some (lit ''CLOSED'')} \<longrightarrow>
          (\<exists>m. reopenTicket ticketID reason agentName w = (Inl (Error 409 m), w)))"
proof -
  have short: "too_short reason 5 \<longleftrightarrow> (\<forall>r. reason = Some r \<longrightarrow> length (trim r) < 5)"
    by (rule too_short_iff) simp
  have long: "(\<exists>r. reason = Some r \<and> 5 \<le> length (trim r)) \<longleftrightarrow> \<not> too_short reason 5"
    unfolding short by (auto simp: not_less)
  show ?thesis
    unfolding long short [symmetric] terminal_iff [symmetric]
    using assms by (simp add: reopenTicket_def SELECT_one_UPDATE Let_def)
qed

theorem reopenTicket_cases_witness:
  "(\<exists>w'. reopenTicket (lit ''tkt-0004'') (Some (lit ''  Issue is back  '')) None example_store
            = (Inr (Some (tkt_0004\<lparr>status := Some (lit ''OPEN''), resolvedAt := None,
                                   closedAt := None, resolutionNote := None\<rparr>)), w'))
   \<and> (\<exists>m. reopenTicket (lit ''tkt-0003'') None None example_store
            = (Inl (Error 400 m), example_store))
   \<and> (\<exists>m. reopenTicket (lit ''tkt-0002'') (Some (lit ''  Issue is back  '')) None example_store
            = (Inl (Error 409 m), example_store))"
  using reopenTicket_cases [OF example_find(4), of "Some (lit ''  Issue is back  '')" None]
    reopenTicket_cases [OF example_find(3), of None None]
    reopenTicket_cases [OF example_find(2), of "Some (lit ''  Issue is back  '')" None]
  by (auto simp: trim_reason)

section \<open>Resolving with a short note\<close>

text \<open>
  C5, as stated: a resolution note that is missing or shorter than 10 code units after
  trimming gives a 400 ValidationError whatever the status of the ticket. On a ticket
  that is already resolved the action answers 409 instead: the status is checked first.
\<close>

theorem resolveTicket_short_note_resolved_counterexample:
  "length (trim (lit ''Fixed'')) < 10
   \<and> SELECT_one_Tickets (lit ''tkt-0003'') example_store = Some tkt_0003
   \<and> resolveTicket (lit ''tkt-0003'') (Some (lit ''Fixed'')) (Some (lit ''Agent'')) example_store
       = (Inl (Error 409 (lit ''Ticket is already resolved'')), example_store)"
  by (simp add: trim_Fixed example_find resolveTicket_def includes_js_def interp_def)
     (simp add: lit_def toLowerCase_def)

text \<open>
  C5, amended. For a ticket that exists and a note that is missing or shorter than 10
  code units after trimming: when the status is neither \<open>'RESOLVED'\<close> nor \<open>'CLOSED'\<close>
  the action signals 400; when it is one of the two it signals 409. In both cases the
  store is left as it was.
\<close>

theorem resolveTicket_short_note:
  assumes "SELECT_one_Tickets ticketID w = Some t"
    and "\<forall>n. note = Some n \<longrightarrow> length (trim n) < 10"
  shows "(status t \<notin> {Some (lit ''RESOLVED''), Some (lit ''CLOSED'')} \<longrightarrow>
            (\<exists>m. resolveTicket ticketID note agentName w = (Inl (Error 400 m), w)))
       \<and> (status t \<in> {Some (lit ''RESOLVED''), Some (lit ''CLOSED'')} \<longrightarrow>
            (\<exists>m. resolveTicket ticketID note agentName w = (Inl (Error 409 m), w)))"
proof -
  have short: "too_short note 10"
    using assms(2) by (simp add: too_short_iff)
  show ?thesis
    unfolding terminal_iff [symmetric]
    using assms(1) short by (simp add: resolveTicket_def)
qed

theorem resolveTicket_short_note_witness:
  "(\<exists>m. resolveTicket (lit ''tkt-0002'') (Some (lit ''Fixed'')) None example_store
            = (Inl (Error 400 m), example_store))
   \<and> (\<exists>m. resolveTicket (lit ''tkt-0004'') None None example_store
            = (Inl (Error 409 m), example_store))"
proof -
  have short: "\<forall>n. Some (lit ''Fixed'') = Some n \<longrightarrow> length (trim n) < 10"
    by (simp add: trim_Fixed)
  have absent: "\<forall>n. (None :: jsstring option) = Some n \<longrightarrow> length (trim n) < 10"
    by simp
  show ?thesis
    using resolveTicket_short_note [OF example_find(2) short, of None]
      resolveTicket_short_note [OF example_find(4) absent, of None]
    by simp
qed

section \<open>Updating a closed ticket\<close>

text \<open>
  C6. An update request on a ticket whose status is \<open>'CLOSED'\<close> is rejected with a 409
  ConflictError, whatever columns the payload assigns, and the store is left as it was.
\<close>

theorem update_closed_rejected:
  assumes "SELECT_one_Tickets data_ID w = Some t" and "status t = Some (lit ''CLOSED'')"
  shows "\<exists>m. UPDATE_request_Tickets data_ID payload w = (Inl [Error 409 m], w)"
  using assms by (simp add: UPDATE_request_Tickets_def before_UPDATE_Tickets_def)

theorem update_closed_rejected_witness:
  "\<exists>m. UPDATE_request_Tickets (lit ''tkt-0004'') [Set_title (Some (lit ''Printer works''))]
          example_store = (Inl [Error 409 m], example_store)"
  using update_closed_rejected [OF example_find(4), of "[Set_title (Some (lit ''Printer works''))]"]
  by simp

section \<open>The audit log\<close>

lemma AuditLogs_UPDATE [simp]: "AuditLogs (UPDATE_Tickets sets k w) = AuditLogs w"
  by (simp add: UPDATE_Tickets_def)

lemma AuditLogs_INSERT_Comments [simp]: "AuditLogs (INSERT_Comments c w) = AuditLogs w"
  by (simp add: INSERT_Comments_def)

lemma AuditLogs_before_CREATE_1 [simp]:
  "AuditLogs (snd (before_CREATE_Tickets_1 data w)) = AuditLogs w"
  by (simp add: before_CREATE_Tickets_1_def new_Date_def Let_def split: option.splits)

lemma ID_before_CREATE_1 [simp]: "ID (fst (before_CREATE_Tickets_1 data w)) = ID data"
  by (simp add: before_CREATE_Tickets_1_def new_Date_def Let_def split: option.splits)

lemma INSERT_Tickets_Inr:
  "INSERT_Tickets data w = (Inr row, w') \<Longrightarrow> AuditLogs w' = AuditLogs w \<and> ID row = ID data"
  by (auto simp: INSERT_Tickets_def new_Date_def Let_def split: if_splits)

lemma AuditLogs_logAudit_eq:
  "AuditLogs (logAudit k a old new by w) =
     AuditLogs w @ [\<lparr>ticket_ID = k, action = a,
                      oldValue = (if falsy old then None else old),
                      newValue = (if falsy new then None else new),
                      performedBy = or_else by (lit ''System''),
                      performedAt = toISOString (clock w (reads w))\<rparr>]"
  by (simp add: logAudit_def new_Date_def)

lemma audit_assignAgent:
  "assignAgent k a r w = (Inr x, w') \<Longrightarrow> \<exists>e. AuditLogs w' = AuditLogs w @ [e] \<and> ticket_ID e = k"
  by (auto simp: assignAgent_def Let_def AuditLogs_logAudit_eq split: option.splits if_splits)

lemma audit_changePriority:
  "changePriority k p r w = (Inr x, w') \<Longrightarrow> \<exists>e. AuditLogs w' = AuditLogs w @ [e] \<and> ticket_ID e = k"
  by (auto simp: changePriority_def Let_def AuditLogs_logAudit_eq split: option.splits if_splits)

lemma audit_resolveTicket:
  "resolveTicket k n a w = (Inr x, w') \<Longrightarrow> \<exists>e. AuditLogs w' = AuditLogs w @ [e] \<and> ticket_ID e = k"
  by (auto simp: resolveTicket_def Let_def new_Date_def AuditLogs_logAudit_eq
      split: option.splits if_splits)

lemma audit_closeTicket:
  "closeTicket k a w = (Inr x, w') \<Longrightarrow> \<exists>e. AuditLogs w' = AuditLogs w @ [e] \<and> ticket_ID e = k"
  by (auto simp: closeTicket_def Let_def new_Date_def AuditLogs_logAudit_eq
      split: option.splits if_splits)

lemma audit_escalateTicket:
  "escalateTicket k r a w = (Inr x, w') \<Longrightarrow> \<exists>e. AuditLogs w' = AuditLogs w @ [e] \<and> ticket_ID e = k"
  by (auto simp: escalateTicket_def Let_def AuditLogs_logAudit_eq
      split: option.splits if_splits jsvalue.splits)

lemma audit_reopenTicket:
  "reopenTicket k r a w = (Inr x, w') \<Longrightarrow> \<exists>e. AuditLogs w' = AuditLogs w @ [e] \<and> ticket_ID e = k"
  by (auto simp: reopenTicket_def Let_def AuditLogs_logAudit_eq split: option.splits if_splits)

lemma audit_CREATE_Tickets:
  assumes "CREATE_Tickets data w = (Inr x, w')"
  shows "\<exists>e. AuditLogs w' = AuditLogs w @ [e] \<and> ticket_ID e = ID data"
proof -
  obtain data1 w1 where b: "before_CREATE_Tickets_1 data w = (data1, w1)"
    by (cases "before_CREATE_Tickets_1 data w")
  from b have a1: "AuditLogs w1 = AuditLogs w" and i1: "ID data1 = ID data"
    using AuditLogs_before_CREATE_1 [of data w] ID_before_CREATE_1 [of data w] by simp_all
  from assms b obtain w2 where ins: "INSERT_Tickets data1 w1 = (Inr x, w2)"
    and w': "w' = after_CREATE_Tickets x w2"
    by (auto simp: CREATE_Tickets_def Let_def split: if_splits sum.splits prod.splits)
  from INSERT_Tickets_Inr [OF ins] a1 i1 have "AuditLogs w2 = AuditLogs w" "ID x = ID data"
    by simp_all
  then show ?thesis
    by (simp add: w' after_CREATE_Tickets_def AuditLogs_logAudit_eq)
qed

lemma succeeded_True: "succeeded r = (True, w') \<longleftrightarrow> (\<exists>x. r = (Inr x, w'))"
  by (auto simp: succeeded_def split: prod.splits sum.splits)

text \<open>
  C7. Every lifecycle operation that succeeds (create, assignAgent, changePriority,
  resolveTicket, closeTicket, escalateTicket, reopenTicket) leaves the audit log as it
  was plus exactly one new row at the end, and that row refers to the ticket of the
  operation.
\<close>

theorem audit_appended_once:
  assumes "perform op w = (True, w')"
  shows "\<exists>e. AuditLogs w' = AuditLogs w @ [e] \<and> ticket_ID e = affected op"
proof (cases op)
  case (Create data)
  with assms show ?thesis by (auto simp: succeeded_True dest: audit_CREATE_Tickets)
next
  case (AssignAgent k a r)
  with assms show ?thesis by (auto simp: succeeded_True dest: audit_assignAgent)
next
  case (ChangePriority k p r)
  with assms show ?thesis by (auto simp: succeeded_True dest: audit_changePriority)
next
  case (ResolveTicket k n a)
  with assms show ?thesis by (auto simp: succeeded_True dest: audit_resolveTicket)
next
  case (CloseTicket k a)
  with assms show ?thesis by (auto simp: succeeded_True dest: audit_closeTicket)
next
  case (EscalateTicket k r a)
  with assms show ?thesis by (auto simp: succeeded_True dest: audit_escalateTicket)
next
  case (ReopenTicket k r a)
  with assms show ?thesis by (auto simp: succeeded_True dest: audit_reopenTicket)
qed

theorem audit_appended_once_witness:
  "\<exists>e. AuditLogs (snd (perform (CloseTicket (lit ''tkt-0003'') None) example_store))
          = AuditLogs example_store @ [e] \<and> ticket_ID e = lit ''tkt-0003''"
proof -
  have "fst (perform (CloseTicket (lit ''tkt-0003'') None) example_store) = True"
    by (simp add: closeTicket_def example_find succeeded_def new_Date_def Let_def)
  then have "perform (CloseTicket (lit ''tkt-0003'') None) example_store
               = (True, snd (perform (CloseTicket (lit ''tkt-0003'') None) example_store))"
    by (simp add: prod_eq_iff)
  from audit_appended_once [OF this] show ?thesis by simp
qed

section \<open>Ticket numbers\<close>

lemma String_nat_digit: "n < 10 \<Longrightarrow> String_nat n = [0x30 + of_nat n]"
  by (subst String_nat.simps) simp

lemma String_nat_more:
  "10 \<le> n \<Longrightarrow> String_nat n = String_nat (n div 10) @ [0x30 + of_nat (n mod 10)]"
  by (subst String_nat.simps) simp

lemma length_String_nat: "n < 10 ^ k \<Longrightarrow> 0 < k \<Longrightarrow> length (String_nat n) \<le> k"
proof (induction n arbitrary: k rule: String_nat.induct)
  case (1 n)
  show ?case
  proof (cases "n < 10")
    case True
    with 1(3) show ?thesis by (simp add: String_nat_digit)
  next
    case False
    then have ge: "10 \<le> n" by simp
    obtain j where k: "k = Suc j" using 1(3) by (cases k) auto
    have j: "0 < j" using 1(2) ge k by (cases j) auto
    have "n div 10 < 10 ^ j" using 1(2) k by (simp add: less_mult_imp_div_less)
    from 1(1) [OF False this j] show ?thesis
      by (simp add: String_nat_more [OF ge] k)
  qed
qed

lemma length_padStart: "length (padStart n c s) = max n (length s)"
  by (simp add: padStart_def)

lemma before_CREATE_1_number:
  "ticketNumber (fst (before_CREATE_Tickets_1 data w))
     = Some (lit ''TKT-'' @ String_int (getFullYear (clock w (reads w))) @ lit ''-''
             @ padStart 5 0x30 (String_nat (length (Tickets w) + 1)))"
  by (simp add: before_CREATE_Tickets_1_def new_Date_def Let_def split: option.splits)

lemma INSERT_Tickets_number:
  "INSERT_Tickets data w = (Inr row, w') \<Longrightarrow> ticketNumber row = ticketNumber data"
  by (auto simp: INSERT_Tickets_def new_Date_def Let_def split: if_splits)

lemma String_nat_5: "String_nat 5 = lit ''5''" "String_nat 1 = lit ''1''"
  by (simp_all add: String_nat_digit lit_def)

lemma String_int_2025: "String_int 2025 = lit ''2025''"
  by (simp add: String_int_def String_nat_more String_nat_digit lit_def)

lemma new_ticket_valid: "before_CREATE_Tickets_2 (new_ticket\<lparr>ticketNumber := n, dueDate := d, status := s\<rparr>) = []"
  by (simp add: before_CREATE_Tickets_2_def new_ticket_def no_ticket_def too_short_def falsy_def
      trim_def lit_def isWhiteSpace_def)

lemma before_CREATE_1_new_ticket:
  "before_CREATE_Tickets_1 new_ticket example_store =
     (new_ticket\<lparr>ticketNumber := Some (lit ''TKT-2025-00005''),
                  dueDate := Some 1750086400001, status := Some (lit ''OPEN'')\<rparr>,
      example_store\<lparr>reads := 2\<rparr>)"
proof -
  have cat: "category_ID new_ticket = Some (lit ''cat-0002'')"
    by (simp add: new_ticket_def no_ticket_def)
  have seq: "lit ''TKT-'' @ String_int 2025 @ lit ''-'' @ padStart 5 0x30 (String_nat 5)
               = lit ''TKT-2025-00005''"
    by (simp add: String_int_2025 String_nat_5 padStart_def)
       (simp add: lit_def eval_nat_numeral)
  have sel: "SELECT_one_Categories (lit ''cat-0002'') (example_store\<lparr>reads := Suc 0\<rparr>)
               = Some \<lparr>Categories_ID = lit ''cat-0002'', slaHours = Some 24\<rparr>"
    by (simp add: SELECT_one_Categories_def example_store_def)
  have clk: "clock example_store = example_clock" "reads example_store = 0"
    by (simp_all add: example_store_def)
  have five: "String_nat (Suc (Suc (Suc (Suc (Suc 0))))) = String_nat 5"
    by (simp add: eval_nat_numeral)
  show ?thesis
    by (simp add: before_CREATE_Tickets_1_def new_Date_def Let_def cat falsy_def interp_def
        sel clk example_clock_def five seq)
qed

lemma INSERT_new_ticket:
  "fst (INSERT_Tickets (new_ticket\<lparr>ticketNumber := n, dueDate := d, status := s\<rparr>)
          (example_store\<lparr>reads := 2\<rparr>))
     = Inr (new_ticket\<lparr>ticketNumber := n, dueDate := d, status := s,
                         createdAt := Some 1750000000002, priority := Some (lit ''HIGH''),
                         isOverdue := Some False\<rparr>)"
proof -
  have fresh: "ID new_ticket \<notin> set (map ID (Tickets example_store))"
    by (simp add: new_ticket_def no_ticket_def)
  have clk: "clock example_store = example_clock"
    by (simp add: example_store_def)
  have cols: "priority new_ticket = Some (lit ''HIGH'')" "isOverdue new_ticket = None"
    by (simp_all add: new_ticket_def no_ticket_def)
  show ?thesis
    using fresh
    by (simp add: INSERT_Tickets_def new_Date_def Let_def clk example_clock_def
        toISOString_def cols)
qed

lemma CREATE_new_ticket_row:
  "fst (CREATE_Tickets new_ticket example_store) = Inr created_ticket"
  using INSERT_new_ticket [where n = "Some (lit ''TKT-2025-00005'')"
      and d = "Some 1750086400001" and s = "Some (lit ''OPEN'')"]
  by (auto simp: CREATE_Tickets_def before_CREATE_1_new_ticket new_ticket_valid
      created_ticket_def split: prod.splits sum.splits)

lemma numbered_in_2025:
  "filter (numbered_in 2025) (Tickets example_store) = []"
  by (simp add: numbered_in_def String_int_2025 tkt_0001_def tkt_0002_def tkt_0003_def
      tkt_0004_def no_ticket_def)
     (simp add: lit_def)

lemma padStart_String_nat:
  "padStart 5 0x30 (String_nat 5) = lit ''00005''" "padStart 5 0x30 (String_nat 1) = lit ''00001''"
  by (simp_all add: String_nat_digit padStart_def lit_def eval_nat_numeral)

text \<open>
  C4, as stated: the sequence in the ticket number is a counter per calendar year. In the
  small store all four tickets were numbered in 2024; the first ticket created in 2025
  gets the sequence 00005, where a counter per year would give 00001.
\<close>

theorem ticketNumber_per_year_counterexample:
  "getFullYear (clock example_store (reads example_store)) = 2025
   \<and> fst (CREATE_Tickets new_ticket example_store) = Inr created_ticket
   \<and> ticketNumber created_ticket = Some (lit ''TKT-2025-00005'')
   \<and> ticketNumber_per_year 2025 (Tickets example_store) = lit ''TKT-2025-00001''"
proof -
  have one: "length (filter (numbered_in 2025) (Tickets example_store)) + 1 = 1"
    unfolding numbered_in_2025 by simp
  have "lit ''TKT-'' @ String_int 2025 @ lit ''-'' @ padStart 5 0x30 (String_nat 1)
          = lit ''TKT-2025-00001''"
    unfolding String_int_2025 padStart_String_nat by (simp add: lit_def)
  then have "ticketNumber_per_year 2025 (Tickets example_store) = lit ''TKT-2025-00001''"
    unfolding ticketNumber_per_year_def one .
  moreover have "getFullYear (clock example_store (reads example_store)) = 2025"
    by (simp add: example_store_def example_clock_def)
  moreover have "ticketNumber created_ticket = Some (lit ''TKT-2025-00005'')"
    by (simp add: created_ticket_def)
  ultimately show ?thesis
    using CREATE_new_ticket_row by simp
qed

text \<open>
  C4, amended. A ticket that is created gets the number \<open>TKT-<year>-<seq>\<close>, where
  \<open><year>\<close> is the calendar year of the clock reading and \<open><seq>\<close> is one more than
  the number of all the tickets in the store, of whatever year, in decimal and padded
  with zeros on the left to five digits. The sequence has exactly five digits as long as
  that count stays below 100000.
\<close>

theorem ticketNumber_counts_all_tickets:
  assumes "CREATE_Tickets data w = (Inr row, w')"
  shows "ticketNumber row
           = Some (lit ''TKT-'' @ String_int (getFullYear (clock w (reads w))) @ lit ''-''
                   @ padStart 5 0x30 (String_nat (length (Tickets w) + 1)))
       \<and> (length (Tickets w) + 1 < 100000 \<longrightarrow>
            length (padStart 5 0x30 (String_nat (length (Tickets w) + 1))) = 5)"
proof -
  obtain data1 w1 where b: "before_CREATE_Tickets_1 data w = (data1, w1)"
    by (cases "before_CREATE_Tickets_1 data w")
  from assms b obtain w2 where ins: "INSERT_Tickets data1 w1 = (Inr row, w2)"
    by (auto simp: CREATE_Tickets_def Let_def split: if_splits sum.splits prod.splits)
  from INSERT_Tickets_number [OF ins] before_CREATE_1_number [of data w] b
  have number: "ticketNumber row
           = Some (lit ''TKT-'' @ String_int (getFullYear (clock w (reads w))) @ lit ''-''
                   @ padStart 5 0x30 (String_nat (length (Tickets w) + 1)))"
    by simp
  have five: "length (String_nat n) \<le> 5" if "n < 100000" for n
    using length_String_nat [of n 5] that by simp
  have "length (padStart 5 0x30 (String_nat n)) = 5" if "n < 100000" for n
    using five [OF that] by (simp add: length_padStart max_def)
  with number show ?thesis by blast
qed

theorem ticketNumber_counts_all_tickets_witness:
  "ticketNumber created_ticket
     = Some (lit ''TKT-'' @ String_int 2025 @ lit ''-'' @ padStart 5 0x30 (String_nat 5))
   \<and> length (padStart 5 0x30 (String_nat 5)) = 5"
proof -
  have create: "CREATE_Tickets new_ticket example_store
          = (Inr created_ticket, snd (CREATE_Tickets new_ticket example_store))"
    using CREATE_new_ticket_row by (simp add: prod_eq_iff)
  have len: "length (Tickets example_store) + 1 = 5"
    by simp
  have year: "getFullYear (clock example_store (reads example_store)) = 2025"
    by (simp add: example_store_def example_clock_def)
  from ticketNumber_counts_all_tickets [OF create] show ?thesis
    unfolding len year by simp
qed

section \<open>Timestamps and status\<close>

lemma find_unique:
  "distinct (map ID ts) \<Longrightarrow> find (\<lambda>t. ID t = k) ts = Some t0 \<Longrightarrow> t \<in> set ts \<Longrightarrow> ID t = k
     \<Longrightarrow> t = t0"
  by (induction ts) (auto split: if_splits)

lemma map_ID_update:
  "map ID (map (\<lambda>t. if ID t = k then fold assign sets t else t) ts) = map ID ts"
  by (induction ts) simp_all

lemma rewritten_keeps:
  assumes rw: "rewritten k C sets w w'"
    and d: "distinct (map ID (Tickets w))"
    and all: "\<forall>t \<in> set (Tickets w). R t"
    and upd: "\<And>t0. C t0 \<Longrightarrow> R t0 \<Longrightarrow> R (fold assign sets t0)"
  shows "distinct (map ID (Tickets w')) \<and> (\<forall>t \<in> set (Tickets w'). R t)"
  using rw unfolding rewritten_def
proof
  assume "Tickets w' = Tickets w"
  with d all show ?thesis by simp
next
  assume "\<exists>t0. SELECT_one_Tickets k w = Some t0 \<and> C t0
            \<and> Tickets w' = map (\<lambda>t. if ID t = k then fold assign sets t else t) (Tickets w)"
  then obtain t0 where f: "find (\<lambda>t. ID t = k) (Tickets w) = Some t0" and c: "C t0"
    and eq: "Tickets w' = map (\<lambda>t. if ID t = k then fold assign sets t else t) (Tickets w)"
    by (auto simp: SELECT_one_Tickets_def)
  have "map ID (Tickets w') = map ID (Tickets w)"
    unfolding eq by (rule map_ID_update)
  with d have dist: "distinct (map ID (Tickets w'))"
    by simp
  have "R t'" if "t' \<in> set (Tickets w')" for t'
  proof -
    from that eq obtain t where t: "t \<in> set (Tickets w)"
      and t': "t' = (if ID t = k then fold assign sets t else t)"
      by auto
    show ?thesis
    proof (cases "ID t = k")
      case True
      with find_unique [OF d f t] have "t = t0" by simp
      with True t' upd [OF c] all t show ?thesis by simp
    next
      case False
      with t' all t show ?thesis by simp
    qed
  qed
  with dist show ?thesis by blast
qed

lemma Tickets_UPDATE:
  "Tickets (UPDATE_Tickets sets k w)
     = map (\<lambda>t. if ID t = k then fold assign sets t else t) (Tickets w)"
  by (simp add: UPDATE_Tickets_def)

lemma rewritten_assignAgent:
  "rewritten k (\<lambda>t. status t \<noteq> Some (lit ''CLOSED''))
     [Set_assignedTo_ID (Some a), Set_status (Some (lit ''IN_PROGRESS''))]
     w (snd (assignAgent k a r w))"
  by (simp add: rewritten_def assignAgent_def Let_def Tickets_UPDATE split: option.splits)

lemma rewritten_changePriority:
  "rewritten k (\<lambda>t. True) [Set_priority p] w (snd (changePriority k p r w))"
  by (simp add: rewritten_def changePriority_def Let_def Tickets_UPDATE split: option.splits)

lemma rewritten_resolveTicket:
  "rewritten k (\<lambda>t. status t \<noteq> Some (lit ''CLOSED''))
     [Set_status (Some (lit ''RESOLVED'')), Set_resolvedAt (Some (toISOString (clock w (reads w)))),
      Set_resolutionNote n]
     w (snd (resolveTicket k n a w))"
  by (simp add: rewritten_def resolveTicket_def Let_def new_Date_def Tickets_UPDATE
      includes_js_def split: option.splits)

lemma rewritten_closeTicket:
  "rewritten k (\<lambda>t. status t = Some (lit ''RESOLVED''))
     [Set_status (Some (lit ''CLOSED'')), Set_closedAt (Some (toISOString (clock w (reads w))))]
     w (snd (closeTicket k a w))"
  by (simp add: rewritten_def closeTicket_def Let_def new_Date_def Tickets_UPDATE
      split: option.splits)

lemma rewritten_escalateTicket:
  "\<exists>np. rewritten k (\<lambda>t. status t \<noteq> Some (lit ''CLOSED''))
     [Set_priority (Some np), Set_status (Some (lit ''IN_PROGRESS''))]
     w (snd (escalateTicket k r a w))"
  by (auto simp: rewritten_def escalateTicket_def Let_def Tickets_UPDATE includes_js_def
      split: option.splits jsvalue.splits)

lemma rewritten_reopenTicket:
  "rewritten k (\<lambda>t. True)
     [Set_status (Some (lit ''OPEN'')), Set_resolvedAt None, Set_closedAt None,
      Set_resolutionNote None]
     w (snd (reopenTicket k r a w))"
  by (simp add: rewritten_def reopenTicket_def Let_def Tickets_UPDATE split: option.splits)


lemma before_CREATE_1_keeps:
  "Tickets (snd (before_CREATE_Tickets_1 data w)) = Tickets w"
  "ID (fst (before_CREATE_Tickets_1 data w)) = ID data"
  "status (fst (before_CREATE_Tickets_1 data w)) = Some (lit ''OPEN'')"
  "closedAt (fst (before_CREATE_Tickets_1 data w)) = closedAt data"
  by (simp_all add: before_CREATE_Tickets_1_def new_Date_def Let_def split: option.splits)

lemma INSERT_Tickets_shape:
  "Tickets (snd (INSERT_Tickets data w)) = Tickets w
   \<or> (\<exists>row. Tickets (snd (INSERT_Tickets data w)) = Tickets w @ [row]
          \<and> fst (INSERT_Tickets data w) = Inr row
          \<and> ID row \<notin> set (map ID (Tickets w))
          \<and> ID row = ID data \<and> status row = status data \<and> closedAt row = closedAt data)"
  by (simp add: INSERT_Tickets_def new_Date_def Let_def)

lemma Tickets_after_CREATE [simp]: "Tickets (after_CREATE_Tickets t w) = Tickets w"
  by (simp add: after_CREATE_Tickets_def)

lemma CREATE_Tickets_shape:
  "Tickets (snd (CREATE_Tickets data w)) = Tickets w
   \<or> (\<exists>row. Tickets (snd (CREATE_Tickets data w)) = Tickets w @ [row]
          \<and> ID row \<notin> set (map ID (Tickets w))
          \<and> status row = Some (lit ''OPEN'') \<and> closedAt row = closedAt data)"
proof -
  obtain data1 w1 where b: "before_CREATE_Tickets_1 data w = (data1, w1)"
    by (cases "before_CREATE_Tickets_1 data w")
  with before_CREATE_1_keeps [of data w]
  have k: "Tickets w1 = Tickets w" "ID data1 = ID data" "status data1 = Some (lit ''OPEN'')"
    "closedAt data1 = closedAt data"
    by simp_all
  obtain r w2 where i: "INSERT_Tickets data1 w1 = (r, w2)"
    by (cases "INSERT_Tickets data1 w1")
  show ?thesis
    using INSERT_Tickets_shape [of data1 w1] k
    by (auto simp: CREATE_Tickets_def b i Let_def split: sum.splits)
qed

lemma succeeded_snd [simp]: "snd (succeeded r) = snd r"
  by (auto simp: succeeded_def split: prod.splits sum.splits)

lemma perform_keeps_timestamps:
  assumes "timestamps_follow_status w"
  shows "timestamps_follow_status (snd (perform op w))"
proof -
  let ?R = "\<lambda>t. (status t = Some (lit ''RESOLVED'') \<longrightarrow> resolvedAt t \<noteq> None)
        \<and> (status t = Some (lit ''CLOSED'') \<longrightarrow> closedAt t \<noteq> None \<and> resolvedAt t \<noteq> None)"
  from assms have d: "distinct (map ID (Tickets w))" and all: "\<forall>t \<in> set (Tickets w). ?R t"
    by (simp_all add: timestamps_follow_status_def)
  have goal: "timestamps_follow_status w'"
    if "rewritten k C sets w w'" "\<And>t0. C t0 \<Longrightarrow> ?R t0 \<Longrightarrow> ?R (fold assign sets t0)"
    for k C sets w'
    using rewritten_keeps [of k C sets w w' ?R, OF that(1) d all that(2)]
    by (simp add: timestamps_follow_status_def)
  show ?thesis
  proof (cases op)
    case (Create data)
    with CREATE_Tickets_shape [of data w] d all show ?thesis
      by (auto simp: timestamps_follow_status_def)
  next
    case (AssignAgent k a r)
    show ?thesis unfolding AssignAgent perform.simps succeeded_snd
      by (rule goal [OF rewritten_assignAgent]) simp
  next
    case (ChangePriority k p r)
    show ?thesis unfolding ChangePriority perform.simps succeeded_snd
      by (rule goal [OF rewritten_changePriority]) simp
  next
    case (ResolveTicket k n a)
    show ?thesis unfolding ResolveTicket perform.simps succeeded_snd
      by (rule goal [OF rewritten_resolveTicket]) simp
  next
    case (CloseTicket k a)
    show ?thesis unfolding CloseTicket perform.simps succeeded_snd
      by (rule goal [OF rewritten_closeTicket]) simp
  next
    case (EscalateTicket k r a)
    from rewritten_escalateTicket [of k w r a] obtain np where
      "rewritten k (\<lambda>t. status t \<noteq> Some (lit ''CLOSED''))
         [Set_priority (Some np), Set_status (Some (lit ''IN_PROGRESS''))]
         w (snd (escalateTicket k r a w))" ..
    then show ?thesis unfolding EscalateTicket perform.simps succeeded_snd
      by (rule goal) simp
  next
    case (ReopenTicket k r a)
    show ?thesis unfolding ReopenTicket perform.simps succeeded_snd
      by (rule goal [OF rewritten_reopenTicket]) simp
  qed
qed

lemma perform_keeps_closedAt:
  assumes "timestamps_follow_status w" and "closedAt_only_closed w"
    and "payload_closedAt op = None"
  shows "closedAt_only_closed (snd (perform op w))"
proof -
  let ?R = "\<lambda>t. closedAt t \<noteq> None \<longrightarrow> status t = Some (lit ''CLOSED'')"
  from assms have d: "distinct (map ID (Tickets w))" and all: "\<forall>t \<in> set (Tickets w). ?R t"
    by (simp_all add: timestamps_follow_status_def closedAt_only_closed_def)
  have goal: "closedAt_only_closed w'"
    if "rewritten k C sets w w'" "\<And>t0. C t0 \<Longrightarrow> ?R t0 \<Longrightarrow> ?R (fold assign sets t0)"
    for k C sets w'
    using rewritten_keeps [of k C sets w w' ?R, OF that(1) d all that(2)]
    unfolding closedAt_only_closed_def by blast
  show ?thesis
  proof (cases op)
    case (Create data)
    with CREATE_Tickets_shape [of data w] all assms(3) show ?thesis
      by (auto simp: closedAt_only_closed_def)
  next
    case (AssignAgent k a r)
    show ?thesis unfolding AssignAgent perform.simps succeeded_snd
      by (rule goal [OF rewritten_assignAgent]) simp
  next
    case (ChangePriority k p r)
    show ?thesis unfolding ChangePriority perform.simps succeeded_snd
      by (rule goal [OF rewritten_changePriority]) simp
  next
    case (ResolveTicket k n a)
    show ?thesis unfolding ResolveTicket perform.simps succeeded_snd
      by (rule goal [OF rewritten_resolveTicket]) simp
  next
    case (CloseTicket k a)
    show ?thesis unfolding CloseTicket perform.simps succeeded_snd
      by (rule goal [OF rewritten_closeTicket]) simp
  next
    case (EscalateTicket k r a)
    from rewritten_escalateTicket [of k w r a] obtain np where
      "rewritten k (\<lambda>t. status t \<noteq> Some (lit ''CLOSED''))
         [Set_priority (Some np), Set_status (Some (lit ''IN_PROGRESS''))]
         w (snd (escalateTicket k r a w))" ..
    then show ?thesis unfolding EscalateTicket perform.simps succeeded_snd
      by (rule goal) simp
  next
    case (ReopenTicket k r a)
    show ?thesis unfolding ReopenTicket perform.simps succeeded_snd
      by (rule goal [OF rewritten_reopenTicket]) simp
  qed
qed

lemma run_keeps_timestamps:
  "timestamps_follow_status w \<Longrightarrow> timestamps_follow_status (run ops w)"
  by (induction ops arbitrary: w) (simp_all add: perform_keeps_timestamps)

lemma run_keeps_closedAt:
  "timestamps_follow_status w \<Longrightarrow> closedAt_only_closed w
     \<Longrightarrow> \<forall>op \<in> set ops. payload_closedAt op = None
     \<Longrightarrow> closedAt_only_closed (run ops w)"
  by (induction ops arbitrary: w)
     (simp_all add: perform_keeps_timestamps perform_keeps_closedAt)

lemma reopenTicket_clears:
  "reopenTicket k r a w = (Inr (Some t'), w') \<Longrightarrow> resolvedAt t' = None \<and> closedAt t' = None"
  by (auto simp: reopenTicket_def Let_def SELECT_one_UPDATE split: option.splits if_splits)

lemma note_long: "\<not> too_short (Some (lit ''Client configuration was updated'')) 10"
  by (simp add: too_short_def trim_def lit_def isWhiteSpace_def)

lemma Tickets_run_example:
  "Tickets (run example_ops three_tickets) =
     [tkt_0001,
      tkt_0002\<lparr>status := Some (lit ''CLOSED''), resolvedAt := Some 1750000000000,
                closedAt := Some 1750000000002,
                resolutionNote := Some (lit ''Client configuration was updated'')\<rparr>,
      tkt_0003]"
  by (simp add: example_ops_def three_tickets_def example_store_def example_clock_def
      resolveTicket_def closeTicket_def SELECT_one_Tickets_def UPDATE_Tickets_def logAudit_def
      new_Date_def INSERT_Comments_def Let_def includes_js_def note_long toISOString_def
      falsy_def or_else_def interp_def succeeded_def
      tkt_0002_def no_ticket_def)

lemma three_tickets_Tickets [simp]: "Tickets three_tickets = [tkt_0001, tkt_0002, tkt_0003]"
  by (simp add: three_tickets_def)




section \<open>The tickets of an agent\<close>

lemma set_insert_row [simp]: "set (insert_row x rows) = insert x (set rows)"
  by (induction rows) auto

lemma set_orderBy [simp]: "set (orderBy_priority_desc_createdAt_asc rows) = set rows"
  by (induction rows) (simp_all add: orderBy_priority_desc_createdAt_asc_def)

lemma getAgentTickets_set:
  "set (getAgentTickets agentID w)
     = {t \<in> set (Tickets w). assignedTo_ID t = Some agentID \<and> status t \<noteq> Some (lit ''CLOSED'')}"
  by (auto simp: getAgentTickets_def)

lemma priority_order:
  "lit ''CRITICAL'' < lit ''HIGH''" "lit ''HIGH'' < lit ''LOW''" "lit ''LOW'' < lit ''MEDIUM''"
  "lit ''CRITICAL'' < lit ''MEDIUM''"
  by (simp_all add: lit_def)


section \<open>Escalation\<close>

lemma escalatePriority_steps:
  "escalatePriority (Some (lit ''LOW'')) = JString (lit ''MEDIUM'')"
  "escalatePriority (Some (lit ''MEDIUM'')) = JString (lit ''HIGH'')"
  "escalatePriority (Some (lit ''HIGH'')) = JString (lit ''CRITICAL'')"
  "escalatePriority (Some (lit ''CRITICAL'')) = JString (lit ''CRITICAL'')"
  by (simp_all add: escalatePriority_def get_property_def levels_def interp_def)

lemma escalatePriority_default:
  assumes "interp p \<notin> {lit ''LOW'', lit ''MEDIUM'', lit ''HIGH'', lit ''CRITICAL''}"
    and "interp p \<notin> set Object_prototype"
  shows "escalatePriority p = JString (lit ''HIGH'')"
  using assms by (simp add: escalatePriority_def get_property_def levels_def)

lemma escalateTicket_steps:
  assumes "SELECT_one_Tickets ticketID w = Some t"
    and "status t \<notin> {Some (lit ''RESOLVED''), Some (lit ''CLOSED'')}"
    and "escalatePriority (priority t) = JString p'"
  shows "\<exists>w'. escalateTicket ticketID reason agentName w
                 = (Inr (Some (t\<lparr>priority := Some p', status := Some (lit ''IN_PROGRESS'')\<rparr>)), w')
             \<and> SELECT_one_Tickets ticketID w'
                 = Some (t\<lparr>priority := Some p', status := Some (lit ''IN_PROGRESS'')\<rparr>)"
  using assms unfolding terminal_iff [symmetric]
  by (simp add: escalateTicket_def SELECT_one_UPDATE Let_def)

lemma escalateTicket_terminal:
  assumes "SELECT_one_Tickets ticketID w = Some t"
    and "status t \<in> {Some (lit ''RESOLVED''), Some (lit ''CLOSED'')}"
  shows "\<exists>m. escalateTicket ticketID reason agentName w = (Inl (Error 409 m), w)"
  using assms unfolding terminal_iff [symmetric]
  by (simp add: escalateTicket_def)

text \<open>
  C3. \<open>_escalatePriority\<close> steps the four priorities as stated and gives \<open>'HIGH'\<close> for
  other values (see \<open>escalatePriority_steps\<close> and \<open>escalatePriority_default\<close>), and
  \<open>escalateTicket\<close> sets the status and refuses resolved and closed tickets (see
  \<open>escalateTicket_steps\<close> and \<open>escalateTicket_terminal\<close>). The default is not reached
  for a priority that names a member of \<open>Object.prototype\<close>: for \<open>'toString'\<close> the
  lookup finds the inherited function, and the result is not \<open>'HIGH'\<close>.
\<close>

theorem escalatePriority_inherited_member:
  "escalatePriority (Some (lit ''toString'')) = JInherited (lit ''toString'')
   \<and> escalatePriority (Some (lit ''toString'')) \<noteq> JString (lit ''HIGH'')"
  by (simp add: escalatePriority_def get_property_def levels_def interp_def Object_prototype_def)

end
